theory Spec2Isabelle
  imports Complex_Main
begin

section \<open>Calendar arithmetic of the Date constructor\<close>

text \<open>
  Every handler of \<^verbatim>\<open>server.js\<close> builds its month range with
  \<^verbatim>\<open>new Date(2022, month - 1, 1)\<close> and \<^verbatim>\<open>new Date(2022, month, 0)\<close>.
  The constructor is modelled by the abstract operations of the language standard
  (MakeDay, MakeTime, MakeDate) on integer arguments. A time value is a number of
  milliseconds of local time; the zone offset of the server is taken to be constant, so
  that instants are ordered as their local time values are, and every date of the model
  (the range bounds and the \<^verbatim>\<open>dateOfSale\<close> of a document) is a local time value.
  The month is the integer that the query parameter denotes. The constructor makes a date
  invalid when its time value leaves the range of 8.64e15 milliseconds around 1970, which
  takes a month beyond three million; such months are outside the model.
\<close>

type_synonym time_value = int

definition msPerDay :: int where
  "msPerDay = 86400000"

definition Day :: "time_value \<Rightarrow> int" where
  "Day t = t div msPerDay"

definition TimeWithinDay :: "time_value \<Rightarrow> int" where
  "TimeWithinDay t = t mod msPerDay"

definition DaysInYear :: "int \<Rightarrow> int" where
  "DaysInYear y =
     (if y mod 4 \<noteq> 0 then 365
      else if y mod 100 \<noteq> 0 then 366
      else if y mod 400 \<noteq> 0 then 365
      else 366)"

definition DayFromYear :: "int \<Rightarrow> int" where
  "DayFromYear y =
     365 * (y - 1970) + (y - 1969) div 4 - (y - 1901) div 100 + (y - 1601) div 400"

text \<open>Number of days of the year that precede month \<open>mn\<close> (0 is January).\<close>

definition DaysBeforeMonth :: "int \<Rightarrow> int \<Rightarrow> int" where
  "DaysBeforeMonth y mn =
     (let leap = (if DaysInYear y = 366 then 1 else 0) in
      if mn = 0 then 0
      else if mn = 1 then 31
      else if mn = 2 then 59 + leap
      else if mn = 3 then 90 + leap
      else if mn = 4 then 120 + leap
      else if mn = 5 then 151 + leap
      else if mn = 6 then 181 + leap
      else if mn = 7 then 212 + leap
      else if mn = 8 then 243 + leap
      else if mn = 9 then 273 + leap
      else if mn = 10 then 304 + leap
      else 334 + leap)"

text \<open>
  MakeDay carries a month outside 0..11 into the year, and a day of the month outside
  the month into the neighbouring months: day 0 is the day before the first.
\<close>

definition MakeDay :: "int \<Rightarrow> int \<Rightarrow> int \<Rightarrow> int" where
  "MakeDay year month date =
     (let ym = year + month div 12;
          mn = month mod 12
      in DayFromYear ym + DaysBeforeMonth ym mn + date - 1)"

definition MakeTime :: "int \<Rightarrow> int \<Rightarrow> int \<Rightarrow> int \<Rightarrow> int" where
  "MakeTime hour minute sec ms = hour * 3600000 + minute * 60000 + sec * 1000 + ms"

definition MakeDate :: "int \<Rightarrow> int \<Rightarrow> time_value" where
  "MakeDate day time = day * msPerDay + time"

text \<open>\<^verbatim>\<open>new Date(year, month, date)\<close>: the hours, minutes, seconds and milliseconds are 0.\<close>

definition new_Date :: "int \<Rightarrow> int \<Rightarrow> int \<Rightarrow> time_value" where
  "new_Date year month date = MakeDate (MakeDay year month date) (MakeTime 0 0 0 0)"

definition startOfMonth :: "int \<Rightarrow> time_value" where
  "startOfMonth month = new_Date 2022 (month - 1) 1"

definition endOfMonth :: "int \<Rightarrow> time_value" where
  "endOfMonth month = new_Date 2022 month 0"

subsection \<open>Reading a time value back\<close>

text \<open>
  The calendar date of a day number, by the era arithmetic of the proleptic Gregorian
  calendar (eras of 400 years, 146097 days, starting on 1 March). It shares nothing with
  MakeDay, and gives what \<^verbatim>\<open>getFullYear\<close>, \<^verbatim>\<open>getMonth\<close> (0 is January) and
  \<^verbatim>\<open>getDate\<close> return.
\<close>

definition civil :: "int \<Rightarrow> int \<times> int \<times> int" where
  "civil dn =
     (let z = dn + 719468;
          era = z div 146097;
          doe = z mod 146097;
          yoe = (doe - doe div 1460 + doe div 36524 - doe div 146096) div 365;
          doy = doe - (365 * yoe + yoe div 4 - yoe div 100);
          mp = (5 * doy + 2) div 153;
          d = doy - (153 * mp + 2) div 5 + 1;
          m = (if mp < 10 then mp + 3 else mp - 9);
          y = yoe + era * 400 + (if m \<le> 2 then 1 else 0)
      in (y, m - 1, d))"

definition getFullYear :: "time_value \<Rightarrow> int" where
  "getFullYear t = fst (civil (Day t))"

definition getMonth :: "time_value \<Rightarrow> int" where
  "getMonth t = fst (snd (civil (Day t)))"

definition getDate :: "time_value \<Rightarrow> int" where
  "getDate t = snd (snd (civil (Day t)))"

text \<open>The lengths of the months of 2022, which is not a leap year.\<close>

definition days_of_2022 :: "int \<Rightarrow> int" where
  "days_of_2022 month =
     (if month = 2 then 28
      else if month \<in> {4, 6, 9, 11} then 30
      else 31)"

section \<open>Transactions and the collection\<close>

text \<open>
  The schema of \<^verbatim>\<open>server.js\<close> makes no field required, so every field of a
  document may be absent. A price is a JavaScript number, a double; it is modelled by the
  rational it denotes, which orders prices as the store does. A sum of doubles is
  rounded, so the model does not add prices itself: the sum that the store makes of a list
  of numbers is a parameter of the environment of a request.
\<close>

record transaction =
  title :: "string option"
  description :: "string option"
  price :: "rat option"
  dateOfSale :: "time_value option"
  category :: "string option"
  sold :: "bool option"

text \<open>A stored document is a transaction under the identifier the store gave it.\<close>

type_synonym document = "nat \<times> transaction"

record collection =
  documents :: "document list"
  next_id :: nat

text \<open>
  The types that \<^verbatim>\<open>transactionSchema\<close> gives to its paths
  (\<^verbatim>\<open>server.js\<close>, lines 19 to 26).
\<close>

datatype schema_type = SchemaString | SchemaNumber | SchemaDate | SchemaBoolean

definition transactionSchema :: "(string \<times> schema_type) list" where
  "transactionSchema =
     [(''title'', SchemaString),
      (''description'', SchemaString),
      (''price'', SchemaNumber),
      (''dateOfSale'', SchemaDate),
      (''category'', SchemaString),
      (''sold'', SchemaBoolean)]"

text \<open>
  A query fails in the store, or before it: the filter of \<^verbatim>\<open>find\<close> is cast
  by the schema first, and a value that does not cast is a \<open>CastError\<close>.
\<close>

datatype error = StoreError | CastError

subsection \<open>Query conditions\<close>

text \<open>
  \<^verbatim>\<open>dateOfSale: { $gte: startOfMonth, $lte: endOfMonth }\<close>,
  \<^verbatim>\<open>price: { $gte: min, $lte: max }\<close> (the bound \<^verbatim>\<open>Infinity\<close> is \<open>None\<close>) and
  \<^verbatim>\<open>sold: true\<close>. A condition on a field does not hold of a document that lacks
  the field.
\<close>

definition date_between :: "time_value \<Rightarrow> time_value \<Rightarrow> transaction \<Rightarrow> bool" where
  "date_between lo hi d =
     (case dateOfSale d of None \<Rightarrow> False | Some t \<Rightarrow> lo \<le> t \<and> t \<le> hi)"

definition price_between :: "rat \<Rightarrow> rat option \<Rightarrow> transaction \<Rightarrow> bool" where
  "price_between lo hi d =
     (case price d of
        None \<Rightarrow> False
      | Some p \<Rightarrow> lo \<le> p \<and> (case hi of None \<Rightarrow> True | Some h \<Rightarrow> p \<le> h))"

definition sold_is :: "bool \<Rightarrow> transaction \<Rightarrow> bool" where
  "sold_is b d = (sold d = Some b)"

subsection \<open>Operations of the store\<close>

text \<open>
  Each operation of the store either succeeds or fails; the first argument says which,
  and comes from the environment of the request. The store keeps its documents in
  insertion order and answers in that order.
\<close>

definition matching :: "(transaction \<Rightarrow> bool) \<Rightarrow> document list \<Rightarrow> document list" where
  "matching cond docs = filter (\<lambda>doc. cond (snd doc)) docs"

definition countDocuments :: "bool \<Rightarrow> (transaction \<Rightarrow> bool) \<Rightarrow> document list \<Rightarrow> error + nat" where
  "countDocuments ok cond docs =
     (if ok then Inr (length (matching cond docs)) else Inl StoreError)"

text \<open>
  \<^verbatim>\<open>$group: { _id: null, total: { $sum: '$price' } }\<close> after a \<^verbatim>\<open>$match\<close>: one
  group with the total when a document matches, no group when none does. The total is
  the sum that the store makes of the prices of the matching documents that have one,
  \<open>store_sum\<close> of their list, and 0 when none has one.
\<close>

definition prices :: "document list \<Rightarrow> rat list" where
  "prices docs = List.map_filter (\<lambda>doc. price (snd doc)) docs"

definition dollar_sum :: "(rat list \<Rightarrow> rat) \<Rightarrow> rat list \<Rightarrow> rat" where
  "dollar_sum store_sum ps = (if ps = [] then 0 else store_sum ps)"

definition aggregate_total :: "bool \<Rightarrow> (rat list \<Rightarrow> rat) \<Rightarrow> (transaction \<Rightarrow> bool) \<Rightarrow> document list \<Rightarrow> error + rat list" where
  "aggregate_total ok store_sum cond docs =
     (if ok then
        (let ms = matching cond docs
         in Inr (if ms = [] then [] else [dollar_sum store_sum (prices ms)]))
      else Inl StoreError)"

text \<open>
  \<^verbatim>\<open>$group: { _id: '$category', count: { $sum: 1 } }\<close> after a \<^verbatim>\<open>$match\<close>: one
  entry for each category that occurs. The store promises no order of the groups; the
  model lists them by last occurrence.
\<close>

definition aggregate_count :: "bool \<Rightarrow> (transaction \<Rightarrow> bool) \<Rightarrow> document list \<Rightarrow> error + (string option \<times> nat) list" where
  "aggregate_count ok cond docs =
     (if ok then
        (let ms = map snd (matching cond docs)
         in Inr (map (\<lambda>c. (c, length (filter (\<lambda>d. category d = c) ms)))
                  (remdups (map category ms))))
      else Inl StoreError)"

text \<open>
  A clause \<^verbatim>\<open>{ path: regex }\<close> of a filter is the path with the source of the
  regular expression. The filter of \<^verbatim>\<open>find\<close> is cast by the schema before the
  query is sent: a regular expression casts for a path of type String, and for no other
  type. Where a clause does not cast, \<^verbatim>\<open>find\<close> is rejected with a
  \<^verbatim>\<open>CastError\<close> and the store is not asked.
\<close>

type_synonym regex_clause = "string \<times> string"

definition casts :: "regex_clause \<Rightarrow> bool" where
  "casts c = (map_of transactionSchema (fst c) = Some SchemaString)"

definition text_at :: "string \<Rightarrow> transaction \<Rightarrow> string option" where
  "text_at path d =
     (if path = ''title'' then title d
      else if path = ''description'' then description d
      else if path = ''category'' then category d
      else None)"

definition clause_matches :: "(string \<Rightarrow> string \<Rightarrow> bool) \<Rightarrow> regex_clause \<Rightarrow> transaction \<Rightarrow> bool" where
  "clause_matches test c d =
     (case text_at (fst c) d of None \<Rightarrow> False | Some text \<Rightarrow> test (snd c) text)"

text \<open>
  \<^verbatim>\<open>find({ cond, $or: clauses }).skip(n).limit(m)\<close>. The store refuses a
  negative skip, reads a limit of 0 as no limit, and a negative limit as its absolute
  value.
\<close>

definition limit_docs :: "int \<Rightarrow> 'a list \<Rightarrow> 'a list" where
  "limit_docs m xs = (if m = 0 then xs else take (nat \<bar>m\<bar>) xs)"

definition find_skip_limit :: "bool \<Rightarrow> (string \<Rightarrow> string \<Rightarrow> bool) \<Rightarrow> (transaction \<Rightarrow> bool) \<Rightarrow> regex_clause list \<Rightarrow> int \<Rightarrow> int \<Rightarrow> document list \<Rightarrow> error + document list" where
  "find_skip_limit ok test cond clauses n m docs =
     (if \<not> list_all casts clauses then Inl CastError
      else if \<not> ok \<or> n < 0 then Inl StoreError
      else Inr (limit_docs m (drop (nat n)
                  (matching (\<lambda>d. cond d \<and> list_ex (\<lambda>c. clause_matches test c d) clauses) docs))))"

text \<open>
  \<^verbatim>\<open>deleteMany({})\<close> and \<^verbatim>\<open>insertMany(data)\<close> change the collection. Neither is
  atomic: a failing call has removed, or written, the documents it reached before the
  failure (none, when it fails at once), in the order of the collection, or of the array.
  The store gives consecutive fresh identifiers to the documents it writes.
\<close>

datatype delete_outcome = Deleted | DeleteFailed nat

datatype insert_outcome = Inserted | InsertFailed nat

definition write_docs :: "transaction list \<Rightarrow> collection \<Rightarrow> collection" where
  "write_docs ts c =
     \<lparr>documents = documents c @ zip [next_id c ..< next_id c + length ts] ts,
      next_id = next_id c + length ts\<rparr>"

definition deleteMany :: "delete_outcome \<Rightarrow> collection \<Rightarrow> bool \<times> collection" where
  "deleteMany out c =
     (case out of
        Deleted \<Rightarrow> (True, c\<lparr>documents := []\<rparr>)
      | DeleteFailed k \<Rightarrow> (False, c\<lparr>documents := drop k (documents c)\<rparr>))"

definition insertMany :: "insert_outcome \<Rightarrow> transaction list \<Rightarrow> collection \<Rightarrow> bool \<times> collection" where
  "insertMany out ts c =
     (case out of
        Inserted \<Rightarrow> (True, write_docs ts c)
      | InsertFailed k \<Rightarrow> (False, write_docs (take k ts) c))"

section \<open>Promises\<close>

text \<open>
  A promise is fulfilled with a value, rejected, or never settled. \<^verbatim>\<open>Promise.all\<close>
  keeps one slot for each input promise. The inputs settle in some order; a fulfilment
  fills the slot of its own index, the first rejection rejects the result, and the result
  is fulfilled with the slots, in index order, once every slot is filled. The order of
  settlement is the order of the completion times \<open>time i\<close> of the inputs.
\<close>

datatype 'a promise = Fulfilled 'a | Rejected | Pending

fun promise_all_run :: "'a promise list \<Rightarrow> nat list \<Rightarrow> (nat \<Rightarrow> 'a option) \<Rightarrow> 'a list promise" where
  "promise_all_run ps [] slots =
     (case those (map slots [0..<length ps]) of
        Some values \<Rightarrow> Fulfilled values
      | None \<Rightarrow> Pending)"
| "promise_all_run ps (i # order) slots =
     (case ps ! i of
        Rejected \<Rightarrow> Rejected
      | Fulfilled v \<Rightarrow> promise_all_run ps order (slots(i := Some v))
      | Pending \<Rightarrow> promise_all_run ps order slots)"

definition Promise_all :: "(nat \<Rightarrow> nat) \<Rightarrow> 'a promise list \<Rightarrow> 'a list promise" where
  "Promise_all time ps =
     promise_all_run ps (sort_key time [0..<length ps]) (\<lambda>i. None)"

text \<open>The value a settled promise leaves in its slot.\<close>

definition slot_of :: "'a promise \<Rightarrow> 'a option" where
  "slot_of p = (case p of Fulfilled v \<Rightarrow> Some v | Rejected \<Rightarrow> None | Pending \<Rightarrow> None)"

section \<open>Requests, responses and their environment\<close>

text \<open>
  The query of a request: the month, and the three parameters that
  \<^verbatim>\<open>/api/transactions\<close> gives a default. A number is the integer its parameter
  denotes; a request without a month, or with a parameter that denotes no integer, is
  outside the model.
\<close>

record query =
  q_month :: int
  q_page :: "int option"
  q_perPage :: "int option"
  q_search :: "string option"

record totals =
  totalSaleAmount :: rat
  totalSoldItems :: nat
  totalNotSoldItems :: nat

text \<open>
  The body of a response: the text of \<^verbatim>\<open>res.send\<close>, or the value of
  \<^verbatim>\<open>res.json\<close>. An entry \<^verbatim>\<open>{ range, count }\<close> of the bar chart and an entry
  \<^verbatim>\<open>{ _id, count }\<close> of the pie chart are pairs.
\<close>

datatype body =
    Text string
  | Transactions "document list"
  | Statistics totals
  | BarChart "(string \<times> nat) list"
  | PieChart "(string option \<times> nat) list"
  | Combined body body body body

record response =
  status :: nat
  body :: body

text \<open>
  What a request meets outside the code of \<^verbatim>\<open>server.js\<close>: the regular
  expression engine, the outcome of each store operation, the moment each concurrent
  operation completes, and the transport of the requests the server sends to itself.
  \<^item> \<open>regexp_ok s\<close>: \<^verbatim>\<open>new RegExp(s, 'i')\<close> does not throw;
  \<^item> \<open>regexp_test s text\<close>: the expression matches the text, ignoring case;
  \<^item> \<open>sum_numbers ps\<close>: the sum that the store makes of the numbers \<open>ps\<close>, with the
    rounding of its arithmetic;
  \<^item> \<open>find_ok\<close>, \<open>total_ok\<close>, \<open>sold_ok\<close>, \<open>unsold_ok\<close>, \<open>group_ok\<close>: the query of
    \<^verbatim>\<open>/api/transactions\<close>, the three operations of \<^verbatim>\<open>/api/statistics\<close> in their
    order, and the aggregation of \<^verbatim>\<open>/api/pie-chart\<close> succeed;
  \<^item> \<open>bucket_ok i\<close>, \<open>bucket_time i\<close>: the count of price range \<open>i\<close> succeeds, and when
    it completes;
  \<^item> \<open>http_ok i\<close>, \<open>http_time i\<close>: request \<open>i\<close> of \<^verbatim>\<open>/api/combined-data\<close> reaches the
    server and its response comes back, and when it completes.
\<close>

record env =
  regexp_ok :: "string \<Rightarrow> bool"
  regexp_test :: "string \<Rightarrow> string \<Rightarrow> bool"
  sum_numbers :: "rat list \<Rightarrow> rat"
  find_ok :: bool
  total_ok :: bool
  sold_ok :: bool
  unsold_ok :: bool
  bucket_ok :: "nat \<Rightarrow> bool"
  bucket_time :: "nat \<Rightarrow> nat"
  group_ok :: bool
  http_ok :: "nat \<Rightarrow> bool"
  http_time :: "nat \<Rightarrow> nat"

definition send :: "nat \<Rightarrow> body \<Rightarrow> response option" where
  "send code b = Some \<lparr>status = code, body = b\<rparr>"

section \<open>The handlers\<close>

subsection \<open>\<^verbatim>\<open>/api/init\<close>\<close>

text \<open>
  What a run of the initialization meets: the array that the source returns, as the
  schema reads its records, or \<open>None\<close> when the request fails, and the outcomes of the
  delete and of the insert.
\<close>

record init_env =
  fetched :: "transaction list option"
  deleted :: delete_outcome
  inserted :: insert_outcome

definition init :: "init_env \<Rightarrow> collection \<Rightarrow> response \<times> collection" where
  "init ienv c =
     (let failure = \<lparr>status = 500, body = Text ''Error initializing database''\<rparr> in
      case fetched ienv of
        None \<Rightarrow> (failure, c)
      | Some data \<Rightarrow>
          (case deleteMany (deleted ienv) c of
             (False, c1) \<Rightarrow> (failure, c1)
           | (True, c1) \<Rightarrow>
               (case insertMany (inserted ienv) data c1 of
                  (False, c2) \<Rightarrow> (failure, c2)
                | (True, c2) \<Rightarrow> (\<lparr>status = 200, body = Text ''Database initialized''\<rparr>, c2))))"

subsection \<open>\<^verbatim>\<open>/api/transactions\<close>\<close>

text \<open>
  The regular expression is built before the \<^verbatim>\<open>try\<close> block: when the constructor
  throws, the exception leaves the handler, whose promise the router does not observe,
  and no response is sent, which is \<open>None\<close>. The filter is the range of the month with
  \<^verbatim>\<open>$or: [{ title: regex }, { description: regex }, { price: regex }]\<close>.
\<close>

definition transactions :: "env \<Rightarrow> document list \<Rightarrow> query \<Rightarrow> response option" where
  "transactions e docs q =
     (let page = (case q_page q of None \<Rightarrow> 1 | Some v \<Rightarrow> v);
          perPage = (case q_perPage q of None \<Rightarrow> 10 | Some v \<Rightarrow> v);
          search = (case q_search q of None \<Rightarrow> [] | Some v \<Rightarrow> v)
      in if \<not> regexp_ok e search then None
         else
           (case find_skip_limit (find_ok e) (regexp_test e)
                   (date_between (startOfMonth (q_month q)) (endOfMonth (q_month q)))
                   [(''title'', search), (''description'', search), (''price'', search)]
                   ((page - 1) * perPage) perPage docs of
              Inr found \<Rightarrow> send 200 (Transactions found)
            | Inl err \<Rightarrow> send 500 (Text ''Error fetching transactions'')))"

subsection \<open>\<^verbatim>\<open>/api/statistics\<close>\<close>

text \<open>
  Three store operations, one after the other; the first that fails ends the handler.
  \<^verbatim>\<open>totalSaleAmount[0]?.total || 0\<close> is 0 when there is no group, and when the total
  is 0.
\<close>

definition statistics :: "env \<Rightarrow> document list \<Rightarrow> int \<Rightarrow> response option" where
  "statistics e docs month =
     (let lo = startOfMonth month;
          hi = endOfMonth month;
          failure = send 500 (Text ''Error fetching statistics'')
      in case aggregate_total (total_ok e) (sum_numbers e)
                (\<lambda>d. date_between lo hi d \<and> sold_is True d) docs of
           Inl err \<Rightarrow> failure
         | Inr amounts \<Rightarrow>
             (case countDocuments (sold_ok e) (\<lambda>d. date_between lo hi d \<and> sold_is True d) docs of
                Inl err \<Rightarrow> failure
              | Inr soldItems \<Rightarrow>
                  (case countDocuments (unsold_ok e) (\<lambda>d. date_between lo hi d \<and> sold_is False d) docs of
                     Inl err \<Rightarrow> failure
                   | Inr notSoldItems \<Rightarrow>
                       send 200
                         (Statistics
                            \<lparr>totalSaleAmount =
                               (case amounts of
                                  [] \<Rightarrow> 0
                                | amount # groups \<Rightarrow> if amount = 0 then 0 else amount),
                             totalSoldItems = soldItems,
                             totalNotSoldItems = notSoldItems\<rparr>))))"

subsection \<open>\<^verbatim>\<open>/api/bar-chart\<close>\<close>

definition priceRanges :: "(string \<times> rat \<times> rat option) list" where
  "priceRanges =
     [(''0-100'', 0, Some 100),
      (''101-200'', 101, Some 200),
      (''201-300'', 201, Some 300),
      (''301-400'', 301, Some 400),
      (''401-500'', 401, Some 500),
      (''501-600'', 501, Some 600),
      (''601-700'', 601, Some 700),
      (''701-800'', 701, Some 800),
      (''801-900'', 801, Some 900),
      (''901-above'', 901, None)]"

text \<open>The promise of one price range: its label with its count.\<close>

definition bucket_count :: "env \<Rightarrow> document list \<Rightarrow> int \<Rightarrow> nat \<times> string \<times> rat \<times> rat option \<Rightarrow> (string \<times> nat) promise" where
  "bucket_count e docs month b =
     (case b of (i, label, lo, hi) \<Rightarrow>
        (case countDocuments (bucket_ok e i)
                (\<lambda>d. date_between (startOfMonth month) (endOfMonth month) d \<and> price_between lo hi d)
                docs of
           Inr n \<Rightarrow> Fulfilled (label, n)
         | Inl err \<Rightarrow> Rejected))"

definition bar_chart :: "env \<Rightarrow> document list \<Rightarrow> int \<Rightarrow> response option" where
  "bar_chart e docs month =
     (case Promise_all (bucket_time e) (map (bucket_count e docs month) (enumerate 0 priceRanges)) of
        Fulfilled result \<Rightarrow> send 200 (BarChart result)
      | Rejected \<Rightarrow> send 500 (Text ''Error fetching bar chart data'')
      | Pending \<Rightarrow> None)"

subsection \<open>\<^verbatim>\<open>/api/pie-chart\<close>\<close>

definition pie_chart :: "env \<Rightarrow> document list \<Rightarrow> int \<Rightarrow> response option" where
  "pie_chart e docs month =
     (case aggregate_count (group_ok e) (date_between (startOfMonth month) (endOfMonth month)) docs of
        Inr result \<Rightarrow> send 200 (PieChart result)
      | Inl err \<Rightarrow> send 500 (Text ''Error fetching pie chart data''))"

subsection \<open>\<^verbatim>\<open>/api/combined-data\<close>\<close>

text \<open>
  \<^verbatim>\<open>axios.get\<close> of one of the server's own endpoints, given the response of that
  endpoint's handler: it is fulfilled with the body of a response whose status is
  200 to 299, rejected by any other status and by a failure of the transport, and never
  settles when the handler sends no response.
\<close>

definition axios_get :: "bool \<Rightarrow> response option \<Rightarrow> body promise" where
  "axios_get ok r =
     (if \<not> ok then Rejected
      else case r of
             None \<Rightarrow> Pending
           | Some resp \<Rightarrow>
               if 200 \<le> status resp \<and> status resp < 300 then Fulfilled (body resp) else Rejected)"

text \<open>The four requests, each with the whole query of the combined request.\<close>

definition sub_responses :: "env \<Rightarrow> document list \<Rightarrow> query \<Rightarrow> response option list" where
  "sub_responses e docs q =
     [transactions e docs q,
      statistics e docs (q_month q),
      bar_chart e docs (q_month q),
      pie_chart e docs (q_month q)]"

definition combined_data :: "env \<Rightarrow> document list \<Rightarrow> query \<Rightarrow> response option" where
  "combined_data e docs q =
     (case Promise_all (http_time e)
             (map (\<lambda>(i, r). axios_get (http_ok e i) r) (enumerate 0 (sub_responses e docs q))) of
        Fulfilled [transactionsData, statisticsData, barChart, pieChart] \<Rightarrow>
          send 200 (Combined transactionsData statisticsData barChart pieChart)
      | Fulfilled others \<Rightarrow> None
      | Rejected \<Rightarrow> send 500 (Text ''Error fetching combined data'')
      | Pending \<Rightarrow> None)"

section \<open>Notions used to state the properties\<close>

text \<open>What the count of one price range is when the store answers: the label with the
  number of documents of the month whose price lies within the bounds of the range.\<close>

definition range_count :: "document list \<Rightarrow> int \<Rightarrow> string \<times> rat \<times> rat option \<Rightarrow> string \<times> nat" where
  "range_count docs month r =
     (case r of (label, lo, hi) \<Rightarrow>
        (label, length (matching (\<lambda>d. date_between (startOfMonth month) (endOfMonth month) d
                                       \<and> price_between lo hi d) docs)))"

text \<open>The prices that lie in one of the ten ranges of \<open>priceRanges\<close>.\<close>

definition in_a_price_range :: "rat \<Rightarrow> bool" where
  "in_a_price_range p =
     (0 \<le> p \<and> p \<le> 100 \<or> 101 \<le> p \<and> p \<le> 200 \<or> 201 \<le> p \<and> p \<le> 300
      \<or> 301 \<le> p \<and> p \<le> 400 \<or> 401 \<le> p \<and> p \<le> 500 \<or> 501 \<le> p \<and> p \<le> 600
      \<or> 601 \<le> p \<and> p \<le> 700 \<or> 701 \<le> p \<and> p \<le> 800 \<or> 801 \<le> p \<and> p \<le> 900
      \<or> 901 \<le> p)"

definition price_in_a_range :: "transaction \<Rightarrow> bool" where
  "price_in_a_range d = (case price d of None \<Rightarrow> False | Some p \<Rightarrow> in_a_price_range p)"

text \<open>
  The prices that lie strictly between the upper bound of one range and the lower bound
  of the next, and the documents with a price that is not negative.
\<close>

definition between_price_ranges :: "rat \<Rightarrow> bool" where
  "between_price_ranges p =
     (100 < p \<and> p < 101 \<or> 200 < p \<and> p < 201 \<or> 300 < p \<and> p < 301
      \<or> 400 < p \<and> p < 401 \<or> 500 < p \<and> p < 501 \<or> 600 < p \<and> p < 601
      \<or> 700 < p \<and> p < 701 \<or> 800 < p \<and> p < 801 \<or> 900 < p \<and> p < 901)"

definition price_between_ranges :: "transaction \<Rightarrow> bool" where
  "price_between_ranges d =
     (case price d of None \<Rightarrow> False | Some p \<Rightarrow> between_price_ranges p)"

definition price_not_negative :: "transaction \<Rightarrow> bool" where
  "price_not_negative d = (case price d of None \<Rightarrow> False | Some p \<Rightarrow> 0 \<le> p)"

text \<open>The sum of the counts of a bar chart response.\<close>

definition bar_total :: "response option \<Rightarrow> nat" where
  "bar_total r =
     (case r of
        None \<Rightarrow> 0
      | Some resp \<Rightarrow> (case body resp of BarChart result \<Rightarrow> sum_list (map snd result) | other \<Rightarrow> 0))"

text \<open>The labels of the ten price ranges, in the order of their declaration.\<close>

definition range_labels :: "string list" where
  "range_labels =
     [''0-100'', ''101-200'', ''201-300'', ''301-400'', ''401-500'',
      ''501-600'', ''601-700'', ''701-800'', ''801-900'', ''901-above'']"

text \<open>The search of a request, with its default.\<close>

definition search_param :: "query \<Rightarrow> string" where
  "search_param q = (case q_search q of None \<Rightarrow> [] | Some v \<Rightarrow> v)"

text \<open>Every handler sends 200 or 500, or nothing.\<close>

definition plain :: "response option \<Rightarrow> bool" where
  "plain r = (r = None \<or> (\<exists>b. r = send 200 b) \<or> (\<exists>b. r = send 500 b))"

text \<open>The four requests of \<^verbatim>\<open>/api/combined-data\<close>, written out.\<close>

definition requests :: "env \<Rightarrow> document list \<Rightarrow> query \<Rightarrow> body promise list" where
  "requests e docs q =
     [axios_get (http_ok e 0) (transactions e docs q),
      axios_get (http_ok e 1) (statistics e docs (q_month q)),
      axios_get (http_ok e 2) (bar_chart e docs (q_month q)),
      axios_get (http_ok e 3) (pie_chart e docs (q_month q))]"

text \<open>
  The range of a month is the calendar month: it starts on the first day at 00:00, and
  ends on the day of 2022 whose number is the length of the month, at 00:00, the day
  before a first of a month.
\<close>

definition month_range_ok :: "int \<Rightarrow> bool" where
  "month_range_ok month =
     (getFullYear (startOfMonth month) = 2022 \<and> getMonth (startOfMonth month) = month - 1
      \<and> getDate (startOfMonth month) = 1 \<and> TimeWithinDay (startOfMonth month) = 0
      \<and> getFullYear (endOfMonth month) = 2022 \<and> getMonth (endOfMonth month) = month - 1
      \<and> getDate (endOfMonth month) = days_of_2022 month \<and> TimeWithinDay (endOfMonth month) = 0
      \<and> getDate (endOfMonth month + msPerDay) = 1)"

section \<open>Example data\<close>

text \<open>
  An environment in which every operation succeeds and completes in index order. Its
  regular expressions are the literal ones: an expression free of the special characters
  is accepted and matches the texts that contain it, ignoring case. Its sums are exact,
  as the sums of doubles are on the whole numbers of the examples.
\<close>

definition lower :: "string \<Rightarrow> string" where
  "lower s =
     map (\<lambda>c. case map_of (zip ''ABCDEFGHIJKLMNOPQRSTUVWXYZ'' ''abcdefghijklmnopqrstuvwxyz'') c of
                None \<Rightarrow> c
              | Some l \<Rightarrow> l) s"

definition literal_ok :: "string \<Rightarrow> bool" where
  "literal_ok s = list_all (\<lambda>c. \<not> List.member ''()[]{}*+?|^$.'' c) s"

definition literal_test :: "string \<Rightarrow> string \<Rightarrow> bool" where
  "literal_test s text =
     list_ex (\<lambda>i. take (length s) (drop i (lower text)) = lower s) [0..<Suc (length text)]"

definition calm :: env where
  "calm =
     \<lparr>regexp_ok = literal_ok,
      regexp_test = literal_test,
      sum_numbers = sum_list,
      find_ok = True,
      total_ok = True,
      sold_ok = True,
      unsold_ok = True,
      bucket_ok = (\<lambda>i. True),
      bucket_time = (\<lambda>i. i),
      group_ok = True,
      http_ok = (\<lambda>i. True),
      http_time = (\<lambda>i. i)\<rparr>"

text \<open>A bag sold on 5 March 2022 at noon, and variations of it.\<close>

definition bag :: transaction where
  "bag =
     \<lparr>title = Some ''Bag'',
      description = Some ''A canvas bag'',
      price = Some 150,
      dateOfSale = Some (MakeDate (MakeDay 2022 2 5) (MakeTime 12 0 0 0)),
      category = Some ''Clothing'',
      sold = Some True\<rparr>"

definition lamp :: transaction where
  "lamp =
     \<lparr>title = Some ''Lamp'',
      description = Some ''A desk lamp'',
      price = Some (201 / 2),
      dateOfSale = Some (MakeDate (MakeDay 2022 2 9) (MakeTime 8 30 0 0)),
      category = Some ''Home'',
      sold = Some False\<rparr>"

definition refund :: transaction where
  "refund =
     \<lparr>title = Some ''Refund'',
      description = Some ''A returned bag'',
      price = Some (- 5),
      dateOfSale = Some (MakeDate (MakeDay 2022 2 20) (MakeTime 0 0 0 0)),
      category = Some ''Clothing'',
      sold = Some True\<rparr>"

text \<open>A sale on the last day of March 2022, at 10:00.\<close>

definition late_sale :: transaction where
  "late_sale =
     \<lparr>title = Some ''Scarf'',
      description = Some ''A wool scarf'',
      price = Some 40,
      dateOfSale = Some (MakeDate (MakeDay 2022 2 31) (MakeTime 10 0 0 0)),
      category = Some ''Clothing'',
      sold = Some True\<rparr>"

text \<open>The request for March that leaves the page, the page size and the search out.\<close>

definition march :: query where
  "march = \<lparr>q_month = 3, q_page = None, q_perPage = None, q_search = None\<rparr>"

text \<open>The request for March whose search is \<^verbatim>\<open>*\<close>, which is no regular
  expression.\<close>

definition star :: query where
  "star = \<lparr>q_month = 3, q_page = None, q_perPage = None, q_search = Some ''*''\<rparr>"

text \<open>An environment in which one store operation fails: the count of the price range
  701 to 800.\<close>

definition stormy :: env where
  "stormy = calm\<lparr>bucket_ok := (\<lambda>i. i \<noteq> 7)\<rparr>"

text \<open>A collection that holds one document, and environments of \<^verbatim>\<open>/api/init\<close>:
  the source returns two documents and the store succeeds; the fetch fails; the insert
  fails at once; the insert fails after it has written one document.\<close>

definition old_collection :: collection where
  "old_collection = \<lparr>documents = [(0, refund)], next_id = 1\<rparr>"

definition fresh_run :: init_env where
  "fresh_run = \<lparr>fetched = Some [bag, lamp], deleted = Deleted, inserted = Inserted\<rparr>"

definition no_source :: init_env where
  "no_source = \<lparr>fetched = None, deleted = Deleted, inserted = Inserted\<rparr>"

definition refused_insert :: init_env where
  "refused_insert = \<lparr>fetched = Some [bag, lamp], deleted = Deleted, inserted = InsertFailed 0\<rparr>"

definition broken_insert :: init_env where
  "broken_insert = \<lparr>fetched = Some [bag, lamp], deleted = Deleted, inserted = InsertFailed 1\<rparr>"

section \<open>Lemmas\<close>

subsection \<open>The twelve months of 2022\<close>

lemma month_cases:
  assumes "1 \<le> month" and "month \<le> 12"
  shows "month \<in> {1, 2, 3, 4, 5, 6, 7, 8, 9, 10, 11, 12 :: int}"
  using assms by simp presburger

lemma months_of_2022:
  "month_range_ok 1" "month_range_ok 2" "month_range_ok 3" "month_range_ok 4"
  "month_range_ok 5" "month_range_ok 6" "month_range_ok 7" "month_range_ok 8"
  "month_range_ok 9" "month_range_ok 10" "month_range_ok 11" "month_range_ok 12"
  by code_simp+

lemma end_of_month_midnight:
  "Day (endOfMonth month) = MakeDay 2022 month 0" "TimeWithinDay (endOfMonth month) = 0"
  by (simp_all add: endOfMonth_def new_Date_def MakeDate_def MakeTime_def Day_def
      TimeWithinDay_def msPerDay_def)

lemma after_midnight_later:
  assumes "Day t = Day (endOfMonth month)" and "0 < TimeWithinDay t"
  shows "endOfMonth month < t"
proof -
  have "t = Day t * msPerDay + TimeWithinDay t"
    by (simp add: Day_def TimeWithinDay_def)
  moreover have "endOfMonth month = Day (endOfMonth month) * msPerDay + TimeWithinDay (endOfMonth month)"
    by (simp add: Day_def TimeWithinDay_def)
  ultimately show ?thesis
    using assms by (simp add: end_of_month_midnight(2))
qed

subsection \<open>\<^verbatim>\<open>Promise.all\<close> does not depend on the order of settlement\<close>

lemma promise_all_run_rejected:
  "\<exists>i\<in>set order. ps ! i = Rejected \<Longrightarrow> promise_all_run ps order slots = Rejected"
proof (induction order arbitrary: slots)
  case Nil
  then show ?case by simp
next
  case (Cons i order)
  show ?case
  proof (cases "ps ! i")
    case Rejected
    then show ?thesis by simp
  next
    case (Fulfilled v)
    with Cons.prems have "\<exists>j\<in>set order. ps ! j = Rejected" by auto
    with Fulfilled show ?thesis by (simp add: Cons.IH)
  next
    case Pending
    with Cons.prems have "\<exists>j\<in>set order. ps ! j = Rejected" by auto
    with Pending show ?thesis by (simp add: Cons.IH)
  qed
qed

lemma promise_all_run_settled:
  "\<forall>i\<in>set order. ps ! i \<noteq> Rejected \<Longrightarrow>
   promise_all_run ps order slots =
   promise_all_run ps []
     (\<lambda>j. if j \<in> set order \<and> slot_of (ps ! j) \<noteq> None then slot_of (ps ! j) else slots j)"
proof (induction order arbitrary: slots)
  case Nil
  then show ?case by simp
next
  case (Cons i order)
  have rest: "\<forall>j\<in>set order. ps ! j \<noteq> Rejected" using Cons.prems by simp
  show ?case
  proof (cases "ps ! i")
    case Rejected
    with Cons.prems show ?thesis by simp
  next
    case (Fulfilled v)
    have eq: "(\<lambda>j. if j \<in> set order \<and> slot_of (ps ! j) \<noteq> None then slot_of (ps ! j)
                else (slots(i := Some v)) j)
        = (\<lambda>j. if j \<in> set (i # order) \<and> slot_of (ps ! j) \<noteq> None then slot_of (ps ! j)
                else slots j)"
      using Fulfilled by (auto simp: slot_of_def fun_eq_iff)
    have "promise_all_run ps (i # order) slots = promise_all_run ps order (slots(i := Some v))"
      using Fulfilled by simp
    also have "\<dots> = promise_all_run ps []
        (\<lambda>j. if j \<in> set order \<and> slot_of (ps ! j) \<noteq> None then slot_of (ps ! j)
             else (slots(i := Some v)) j)"
      by (rule Cons.IH [OF rest])
    finally show ?thesis
      unfolding eq .
  next
    case Pending
    have eq: "(\<lambda>j. if j \<in> set order \<and> slot_of (ps ! j) \<noteq> None then slot_of (ps ! j)
                else slots j)
        = (\<lambda>j. if j \<in> set (i # order) \<and> slot_of (ps ! j) \<noteq> None then slot_of (ps ! j)
                else slots j)"
      using Pending by (auto simp: slot_of_def fun_eq_iff)
    have "promise_all_run ps (i # order) slots = promise_all_run ps order slots"
      using Pending by simp
    also have "\<dots> = promise_all_run ps []
        (\<lambda>j. if j \<in> set order \<and> slot_of (ps ! j) \<noteq> None then slot_of (ps ! j)
             else slots j)"
      by (rule Cons.IH [OF rest])
    finally show ?thesis
      unfolding eq .
  qed
qed

lemma Promise_all_eq:
  "Promise_all time ps =
     (if Rejected \<in> set ps then Rejected
      else case those (map slot_of ps) of Some values \<Rightarrow> Fulfilled values | None \<Rightarrow> Pending)"
proof (cases "Rejected \<in> set ps")
  case True
  then obtain i where "i < length ps" "ps ! i = Rejected"
    by (auto simp: in_set_conv_nth)
  then have "\<exists>i\<in>set (sort_key time [0..<length ps]). ps ! i = Rejected"
    by auto
  with True show ?thesis
    by (simp add: Promise_all_def promise_all_run_rejected)
next
  case False
  then have ok: "\<forall>i\<in>set (sort_key time [0..<length ps]). ps ! i \<noteq> Rejected"
    by (fastforce simp: in_set_conv_nth)
  have "map (\<lambda>j. if j \<in> set (sort_key time [0..<length ps]) \<and> slot_of (ps ! j) \<noteq> None
                  then slot_of (ps ! j) else None) [0..<length ps]
      = map (\<lambda>j. slot_of (ps ! j)) [0..<length ps]"
    by auto
  also have "\<dots> = map slot_of ps"
    by (rule nth_equalityI) simp_all
  finally show ?thesis
    using False by (simp add: Promise_all_def promise_all_run_settled [OF ok])
qed

subsection \<open>The ten counts of the bar chart\<close>

lemma those_fulfilled:
  "those (map (slot_of \<circ> (\<lambda>x. Fulfilled (g x))) xs) = Some (map g xs)"
  by (induction xs) (simp_all add: slot_of_def)

lemma bucket_count_fulfilled:
  "bucket_ok e i \<Longrightarrow> bucket_count e docs month (i, r) = Fulfilled (range_count docs month r)"
  by (simp add: bucket_count_def countDocuments_def range_count_def split: prod.splits)

lemma bucket_counts_fulfilled:
  "\<forall>i. n \<le> i \<and> i < n + length rs \<longrightarrow> bucket_ok e i \<Longrightarrow>
   map (bucket_count e docs month) (enumerate n rs)
     = map (\<lambda>r. Fulfilled (range_count docs month r)) rs"
proof (induction rs arbitrary: n)
  case Nil
  then show ?case by simp
next
  case (Cons r rs)
  have "bucket_ok e n" using Cons.prems by simp
  moreover have "\<forall>i. Suc n \<le> i \<and> i < Suc n + length rs \<longrightarrow> bucket_ok e i"
    using Cons.prems by simp
  ultimately show ?case
    by (simp add: Cons.IH bucket_count_fulfilled)
qed

lemma bucket_count_rejected:
  "\<not> bucket_ok e i \<Longrightarrow> bucket_count e docs month (i, r) = Rejected"
  by (simp add: bucket_count_def countDocuments_def split: prod.splits)

lemma length_priceRanges: "length priceRanges = 10"
  by (simp add: priceRanges_def)

lemma bar_chart_fulfilled:
  assumes "\<forall>i<10. bucket_ok e i"
  shows "bar_chart e docs month = send 200 (BarChart (map (range_count docs month) priceRanges))"
proof -
  have "map (bucket_count e docs month) (enumerate 0 priceRanges)
      = map (\<lambda>r. Fulfilled (range_count docs month r)) priceRanges"
    using assms by (intro bucket_counts_fulfilled) (simp add: length_priceRanges)
  then show ?thesis
    by (simp add: bar_chart_def Promise_all_eq those_fulfilled image_iff)
qed

lemma bar_chart_rejected:
  assumes "i < 10" and "\<not> bucket_ok e i"
  shows "bar_chart e docs month = send 500 (Text ''Error fetching bar chart data'')"
proof -
  have "enumerate 0 priceRanges ! i = (i, priceRanges ! i)"
    using assms(1) by (simp add: nth_enumerate_eq length_priceRanges)
  then have "map (bucket_count e docs month) (enumerate 0 priceRanges) ! i = Rejected"
    using assms by (simp add: length_priceRanges bucket_count_rejected)
  moreover have "i < length (map (bucket_count e docs month) (enumerate 0 priceRanges))"
    using assms(1) by (simp add: length_priceRanges)
  ultimately have "Rejected \<in> set (map (bucket_count e docs month) (enumerate 0 priceRanges))"
    by (metis nth_mem)
  then show ?thesis
    by (simp add: bar_chart_def Promise_all_eq)
qed

lemma bar_chart_200:
  assumes "bar_chart e docs month = Some r" and "status r = 200"
  shows "\<forall>i<10. bucket_ok e i"
proof (rule ccontr)
  assume "\<not> (\<forall>i<10. bucket_ok e i)"
  then obtain i where "i < 10" "\<not> bucket_ok e i" by auto
  then have "bar_chart e docs month = send 500 (Text ''Error fetching bar chart data'')"
    by (rule bar_chart_rejected)
  with assms show False by (auto simp: send_def)
qed

lemma bucket_count_time:
  "bucket_count (e\<lparr>bucket_time := time\<rparr>) docs month = bucket_count e docs month"
  by (simp add: bucket_count_def fun_eq_iff)

lemma range_counts_labels:
  "map (range_count docs month) priceRanges
     = zip range_labels (map (\<lambda>r. snd (range_count docs month r)) priceRanges)"
  by (simp add: priceRanges_def range_labels_def range_count_def)

subsection \<open>Every document of the month in one price range at most\<close>

lemma sum_list_indicator:
  "sum_list (map (\<lambda>r. if Q r then 1 else 0) rs) = length (filter Q rs)"
  by (induction rs) simp_all

lemma count_swap:
  "sum_list (map (\<lambda>r. length (filter (P r) xs)) rs)
     = sum_list (map (\<lambda>x. length (filter (\<lambda>r. P r x) rs)) xs)"
proof (induction xs)
  case Nil
  then show ?case by simp
next
  case (Cons x xs)
  have "sum_list (map (\<lambda>r. length (filter (P r) (x # xs))) rs)
      = sum_list (map (\<lambda>r. (if P r x then 1 else 0) + length (filter (P r) xs)) rs)"
    by (intro arg_cong [where f = sum_list] map_cong) simp_all
  also have "\<dots> = sum_list (map (\<lambda>r. if P r x then 1 else 0) rs)
                   + sum_list (map (\<lambda>r. length (filter (P r) xs)) rs)"
    by (simp add: sum_list_addf)
  finally show ?case
    by (simp add: sum_list_indicator Cons.IH)
qed

lemma ranges_of_a_price:
  "length (filter (\<lambda>r. case r of (label, lo, hi) \<Rightarrow> price_between lo hi d) priceRanges)
     = (if price_in_a_range d then 1 else 0)"
proof (cases "price d")
  case None
  then show ?thesis
    by (simp add: price_between_def price_in_a_range_def priceRanges_def)
next
  case (Some p)
  then show ?thesis
    unfolding price_between_def price_in_a_range_def priceRanges_def in_a_price_range_def
    by simp
qed

lemma month_count_sum:
  "sum_list (map snd (map (range_count docs month) priceRanges))
     = length (matching (\<lambda>d. date_between (startOfMonth month) (endOfMonth month) d
                              \<and> price_in_a_range d) docs)"
proof -
  let ?in = "date_between (startOfMonth month) (endOfMonth month)"
  have "sum_list (map snd (map (range_count docs month) priceRanges))
      = sum_list (map (\<lambda>r. length (filter (\<lambda>doc. case r of (label, lo, hi) \<Rightarrow>
            ?in (snd doc) \<and> price_between lo hi (snd doc)) docs)) priceRanges)"
    by (simp add: range_count_def matching_def priceRanges_def)
  also have "\<dots> = sum_list (map (\<lambda>doc. length (filter (\<lambda>r. case r of (label, lo, hi) \<Rightarrow>
            ?in (snd doc) \<and> price_between lo hi (snd doc)) priceRanges)) docs)"
    by (rule count_swap)
  also have "\<dots> = sum_list (map (\<lambda>doc. if ?in (snd doc) \<and> price_in_a_range (snd doc) then 1 else 0) docs)"
  proof (intro arg_cong [where f = sum_list] map_cong refl)
    fix doc
    show "length (filter (\<lambda>r. case r of (label, lo, hi) \<Rightarrow>
            ?in (snd doc) \<and> price_between lo hi (snd doc)) priceRanges)
        = (if ?in (snd doc) \<and> price_in_a_range (snd doc) then 1 else 0)"
    proof (cases "?in (snd doc)")
      case True
      then show ?thesis
        using ranges_of_a_price [of "snd doc"] by (simp add: case_prod_unfold)
    next
      case False
      then show ?thesis by (simp add: case_prod_unfold)
    qed
  qed
  also have "\<dots> = length (matching (\<lambda>d. ?in d \<and> price_in_a_range d) docs)"
    by (simp add: sum_list_indicator matching_def)
  finally show ?thesis .
qed

lemma in_a_range_not_between:
  "in_a_price_range p \<Longrightarrow> 0 \<le> p \<and> \<not> between_price_ranges p"
  unfolding in_a_price_range_def between_price_ranges_def
  by (elim disjE conjE) simp_all

lemma not_between_in_a_range:
  "0 \<le> p \<Longrightarrow> \<not> between_price_ranges p \<Longrightarrow> in_a_price_range p"
  unfolding in_a_price_range_def between_price_ranges_def
  by (simp add: not_less not_le) argo

lemma range_or_gap:
  "price_in_a_range d \<longleftrightarrow> price_not_negative d \<and> \<not> price_between_ranges d"
  using in_a_range_not_between not_between_in_a_range
  by (auto simp: price_in_a_range_def price_not_negative_def price_between_ranges_def
      split: option.splits)

subsection \<open>A document outside the range of the month\<close>

lemma matching_skip:
  "\<not> cond d \<Longrightarrow> matching cond (xs @ (i, d) # ys) = matching cond (xs @ ys)"
  by (simp add: matching_def)

lemma transactions_skip:
  assumes "\<not> date_between (startOfMonth (q_month q)) (endOfMonth (q_month q)) d"
  shows "transactions e (xs @ (i, d) # ys) q = transactions e (xs @ ys) q"
  using assms by (simp add: transactions_def find_skip_limit_def matching_skip Let_def)

lemma statistics_skip:
  assumes "\<not> date_between (startOfMonth month) (endOfMonth month) d"
  shows "statistics e (xs @ (i, d) # ys) month = statistics e (xs @ ys) month"
  using assms
  by (simp add: statistics_def aggregate_total_def countDocuments_def matching_skip Let_def)

lemma bar_chart_skip:
  assumes "\<not> date_between (startOfMonth month) (endOfMonth month) d"
  shows "bar_chart e (xs @ (i, d) # ys) month = bar_chart e (xs @ ys) month"
proof -
  have "bucket_count e (xs @ (i, d) # ys) month = bucket_count e (xs @ ys) month"
    using assms by (simp add: bucket_count_def countDocuments_def matching_skip fun_eq_iff)
  then show ?thesis
    by (simp add: bar_chart_def)
qed

lemma pie_chart_skip:
  assumes "\<not> date_between (startOfMonth month) (endOfMonth month) d"
  shows "pie_chart e (xs @ (i, d) # ys) month = pie_chart e (xs @ ys) month"
  using assms by (simp add: pie_chart_def aggregate_count_def matching_skip)

subsection \<open>The filter of the transactions handler does not cast\<close>

lemma transactions_cases:
  "transactions e docs q =
     (if regexp_ok e (search_param q) then send 500 (Text ''Error fetching transactions'')
      else None)"
  by (simp add: transactions_def find_skip_limit_def casts_def transactionSchema_def
      search_param_def Let_def)

subsection \<open>The four requests of the combined handler\<close>

lemma plain_simps: "plain None" "plain (send 200 b)" "plain (send 500 b)"
  by (auto simp: plain_def)

lemma transactions_plain: "plain (transactions e docs q)"
  by (simp add: transactions_cases plain_simps)

lemma statistics_plain: "plain (statistics e docs month)"
  by (simp add: statistics_def Let_def plain_simps split: sum.splits)

lemma bar_chart_plain: "plain (bar_chart e docs month)"
  by (simp add: bar_chart_def plain_simps split: promise.splits)

lemma pie_chart_plain: "plain (pie_chart e docs month)"
  by (simp add: pie_chart_def plain_simps split: sum.splits)

lemma axios_get_plain:
  assumes "plain r"
  shows "axios_get ok r = Fulfilled b \<longleftrightarrow> ok \<and> r = send 200 b"
    and "axios_get ok r = Rejected \<longleftrightarrow> \<not> ok \<or> (\<exists>c. r = send 500 c)"
  using assms by (auto simp: plain_def axios_get_def send_def split: if_splits)

lemma combined_data_requests:
  "combined_data e docs q =
     (case Promise_all (http_time e) (requests e docs q) of
        Fulfilled [t, s, b, p] \<Rightarrow> send 200 (Combined t s b p)
      | Fulfilled others \<Rightarrow> None
      | Rejected \<Rightarrow> send 500 (Text ''Error fetching combined data'')
      | Pending \<Rightarrow> None)"
  by (simp add: combined_data_def requests_def sub_responses_def numeral_2_eq_2 numeral_3_eq_3)

lemma four_promises_500:
  "(case Promise_all time [a0, a1, a2, a3] of
      Fulfilled [t', s', b', p'] \<Rightarrow> send 200 (Combined t' s' b' p')
    | Fulfilled others \<Rightarrow> None
    | Rejected \<Rightarrow> send 500 msg
    | Pending \<Rightarrow> None) = send 500 msg
   \<longleftrightarrow> a0 = Rejected \<or> a1 = Rejected \<or> a2 = Rejected \<or> a3 = Rejected"
  by (cases a0; cases a1; cases a2; cases a3) (auto simp: Promise_all_eq slot_of_def send_def)

lemma four_promises_first:
  assumes "(case Promise_all time [a0, a1, a2, a3] of
      Fulfilled [t', s', b', p'] \<Rightarrow> send 200 (Combined t' s' b' p')
    | Fulfilled others \<Rightarrow> None
    | Rejected \<Rightarrow> send 500 msg
    | Pending \<Rightarrow> None) = Some r" and "\<forall>t. a0 \<noteq> Fulfilled t"
  shows "r = \<lparr>status = 500, body = msg\<rparr>"
  using assms
  by (cases a0; cases a1; cases a2; cases a3) (auto simp: Promise_all_eq slot_of_def send_def)

lemma four_promises_pending:
  "(case Promise_all time [Pending, Fulfilled s, Fulfilled b, Fulfilled p] of
      Fulfilled [t', s', b', p'] \<Rightarrow> send 200 (Combined t' s' b' p')
    | Fulfilled others \<Rightarrow> None
    | Rejected \<Rightarrow> send 500 msg
    | Pending \<Rightarrow> None) = None"
  by (simp add: Promise_all_eq slot_of_def)

subsection \<open>A successful initialization\<close>

lemma contents_write_docs:
  "map snd (documents (write_docs ts c)) = map snd (documents c) @ ts"
  by (simp add: write_docs_def)

lemma init_succeeds:
  assumes "fetched ie = Some data" and "deleted ie = Deleted" and "inserted ie = Inserted"
  shows "init ie c = (\<lparr>status = 200, body = Text ''Database initialized''\<rparr>,
                      write_docs data (c\<lparr>documents := []\<rparr>))"
  using assms by (simp add: init_def deleteMany_def insertMany_def)

subsection \<open>The example data\<close>

lemma march_2022:
  "startOfMonth 3 = 1646092800000" "endOfMonth 3 = 1648684800000"
  by (simp_all add: startOfMonth_def endOfMonth_def new_Date_def MakeDate_def MakeDay_def
      MakeTime_def DayFromYear_def DaysBeforeMonth_def DaysInYear_def msPerDay_def)

lemma bag_fields:
  "title bag = Some ''Bag''" "description bag = Some ''A canvas bag''" "price bag = Some 150"
  "dateOfSale bag = Some 1646481600000" "category bag = Some ''Clothing''" "sold bag = Some True"
  by (simp_all add: bag_def MakeDate_def MakeDay_def MakeTime_def DayFromYear_def
      DaysBeforeMonth_def DaysInYear_def msPerDay_def)

lemma lamp_fields:
  "title lamp = Some ''Lamp''" "description lamp = Some ''A desk lamp''" "price lamp = Some (201 / 2)"
  "dateOfSale lamp = Some 1646814600000" "category lamp = Some ''Home''" "sold lamp = Some False"
  by (simp_all add: lamp_def MakeDate_def MakeDay_def MakeTime_def DayFromYear_def
      DaysBeforeMonth_def DaysInYear_def msPerDay_def)

lemma refund_fields:
  "title refund = Some ''Refund''" "description refund = Some ''A returned bag''" "price refund = Some (- 5)"
  "dateOfSale refund = Some 1647734400000" "category refund = Some ''Clothing''" "sold refund = Some True"
  by (simp_all add: refund_def MakeDate_def MakeDay_def MakeTime_def DayFromYear_def
      DaysBeforeMonth_def DaysInYear_def msPerDay_def)

lemma late_sale_fields:
  "title late_sale = Some ''Scarf''" "description late_sale = Some ''A wool scarf''"
  "price late_sale = Some 40" "dateOfSale late_sale = Some 1648720800000"
  "category late_sale = Some ''Clothing''" "sold late_sale = Some True"
  by (simp_all add: late_sale_def MakeDate_def MakeDay_def MakeTime_def DayFromYear_def
      DaysBeforeMonth_def DaysInYear_def msPerDay_def)

lemma calm_fields:
  "regexp_ok calm = literal_ok" "regexp_test calm = literal_test"
  "sum_numbers calm = sum_list" "find_ok calm" "total_ok calm" "sold_ok calm"
  "unsold_ok calm" "bucket_ok calm = (\<lambda>i. True)" "bucket_time calm = (\<lambda>i. i)"
  "group_ok calm" "http_ok calm = (\<lambda>i. True)" "http_time calm = (\<lambda>i. i)"
  by (simp_all add: calm_def)

lemma march_fields:
  "q_month march = 3" "q_page march = None" "q_perPage march = None" "q_search march = None"
  by (simp_all add: march_def)

lemma empty_search: "literal_ok []" "literal_test [] text"
  by (simp_all add: literal_ok_def literal_test_def lower_def)

lemma bag_in_march:
  "transactions calm [(0, bag)] march = send 500 (Text ''Error fetching transactions'')"
  "statistics calm [(0, bag)] 3 = send 200
       (Statistics \<lparr>totalSaleAmount = 150, totalSoldItems = 1, totalNotSoldItems = 0\<rparr>)"
  "pie_chart calm [(0, bag)] 3 = send 200 (PieChart [(Some ''Clothing'', 1)])"
  by (simp_all add: transactions_cases search_param_def statistics_def pie_chart_def
      aggregate_total_def aggregate_count_def countDocuments_def matching_def
      date_between_def sold_is_def prices_def dollar_sum_def
      march_2022 bag_fields march_fields calm_fields empty_search)

lemma bag_bars_in_march:
  "bar_chart calm [(0, bag)] 3
     = send 200 (BarChart [(''0-100'', 0), (''101-200'', 1), (''201-300'', 0), (''301-400'', 0),
         (''401-500'', 0), (''501-600'', 0), (''601-700'', 0), (''701-800'', 0),
         (''801-900'', 0), (''901-above'', 0)])"
proof -
  have ok: "\<forall>i<10. bucket_ok calm i" by (simp add: calm_fields)
  show ?thesis
    by (simp add: bar_chart_fulfilled [OF ok] priceRanges_def range_count_def matching_def
        date_between_def price_between_def march_2022 bag_fields)
qed

section \<open>Properties of the handlers\<close>

subsection \<open>The range of a month\<close>

text \<open>
  C2. The range of a month is a function of the month alone. For every month from 1 to
  12, its start is the first day of that month of 2022 and its end is the last day of
  that month of 2022: the 28th in February, the 30th in April, June, September and
  November, the 31st otherwise, the day after it being the first of a month. Both bounds
  are at 00:00.
\<close>

theorem month_range_2022:
  assumes "1 \<le> month" and "month \<le> 12"
  shows "getFullYear (startOfMonth month) = 2022 \<and> getMonth (startOfMonth month) = month - 1
         \<and> getDate (startOfMonth month) = 1 \<and> TimeWithinDay (startOfMonth month) = 0
         \<and> getFullYear (endOfMonth month) = 2022 \<and> getMonth (endOfMonth month) = month - 1
         \<and> getDate (endOfMonth month) = days_of_2022 month
         \<and> TimeWithinDay (endOfMonth month) = 0
         \<and> getDate (endOfMonth month + msPerDay) = 1"
proof -
  have "month_range_ok month"
    using month_cases [OF assms] months_of_2022 by (elim insertE emptyE) simp_all
  then show ?thesis
    by (simp add: month_range_ok_def)
qed

text \<open>The theorem at February and April: the ends are 28 February and 30 April 2022.\<close>

theorem month_range_2022_witness:
  "getDate (endOfMonth 2) = 28 \<and> getMonth (endOfMonth 2) = 1 \<and> getFullYear (endOfMonth 2) = 2022
   \<and> getDate (endOfMonth 4) = 30 \<and> getMonth (endOfMonth 4) = 3
   \<and> getDate (startOfMonth 2) = 1 \<and> getMonth (startOfMonth 2) = 1"
  using month_range_2022 [of 2] month_range_2022 [of 4]
  by (simp add: days_of_2022_def)

subsection \<open>The bar chart\<close>

text \<open>
  C1 (as amended). For every month and every content of the store in which no price of a
  document of the month lies strictly between the upper bound of one price range and the
  lower bound of the next, when the ten counts succeed the bar chart handler answers with
  status 200, and the sum of its ten counts is the number of documents whose
  \<^verbatim>\<open>dateOfSale\<close> lies in the range of the month and whose price is defined and not
  negative; every such document lies in exactly one of the ten ranges.
\<close>

theorem bar_chart_total:
  assumes "\<forall>i<10. bucket_ok e i"
    and "\<forall>doc\<in>set docs. date_between (startOfMonth month) (endOfMonth month) (snd doc)
           \<longrightarrow> \<not> price_between_ranges (snd doc)"
  shows "(\<exists>result. bar_chart e docs month = send 200 (BarChart result)
           \<and> bar_total (bar_chart e docs month)
               = length (matching (\<lambda>d. date_between (startOfMonth month) (endOfMonth month) d
                                        \<and> price_not_negative d) docs))
         \<and> (\<forall>doc\<in>set docs.
               date_between (startOfMonth month) (endOfMonth month) (snd doc)
               \<and> price_not_negative (snd doc)
               \<longrightarrow> length (filter (\<lambda>r. case r of (label, lo, hi) \<Rightarrow> price_between lo hi (snd doc))
                             priceRanges) = 1)"
proof -
  have "matching (\<lambda>d. date_between (startOfMonth month) (endOfMonth month) d
                      \<and> price_in_a_range d) docs
      = matching (\<lambda>d. date_between (startOfMonth month) (endOfMonth month) d
                      \<and> price_not_negative d) docs"
    unfolding matching_def
    using assms(2) by (intro filter_cong refl) (auto simp: range_or_gap)
  then have "\<exists>result. bar_chart e docs month = send 200 (BarChart result)
           \<and> bar_total (bar_chart e docs month)
               = length (matching (\<lambda>d. date_between (startOfMonth month) (endOfMonth month) d
                                        \<and> price_not_negative d) docs)"
    using assms(1)
    by (simp add: bar_chart_fulfilled bar_total_def send_def month_count_sum del: map_map)
  moreover have "length (filter (\<lambda>r. case r of (label, lo, hi) \<Rightarrow> price_between lo hi (snd doc))
                    priceRanges) = 1"
    if "doc \<in> set docs" and "date_between (startOfMonth month) (endOfMonth month) (snd doc)"
      and "price_not_negative (snd doc)" for doc
    using that assms(2) by (simp add: ranges_of_a_price range_or_gap)
  ultimately show ?thesis by blast
qed

text \<open>
  The theorem at two documents of March 2022 with the prices 150 and -5: the only count
  that is not 0 is that of the range 101 to 200, and the sum of the counts is 1.
\<close>

theorem bar_chart_total_witness:
  "bar_chart calm [(0, bag), (2, refund)] 3
     = send 200 (BarChart [(''0-100'', 0), (''101-200'', 1), (''201-300'', 0), (''301-400'', 0),
         (''401-500'', 0), (''501-600'', 0), (''601-700'', 0), (''701-800'', 0),
         (''801-900'', 0), (''901-above'', 0)])
   \<and> bar_total (bar_chart calm [(0, bag), (2, refund)] 3) = 1
   \<and> length (matching (\<lambda>d. date_between (startOfMonth 3) (endOfMonth 3) d \<and> price_not_negative d)
        [(0, bag), (2, refund)]) = 1"
proof -
  have ok: "\<forall>i<10. bucket_ok calm i" by (simp add: calm_def)
  have whole: "\<forall>doc\<in>set [(0, bag), (2, refund)].
      date_between (startOfMonth 3) (endOfMonth 3) (snd doc) \<longrightarrow> \<not> price_between_ranges (snd doc)"
    by (simp add: price_between_ranges_def between_price_ranges_def bag_fields refund_fields)
  have "length (matching (\<lambda>d. date_between (startOfMonth 3) (endOfMonth 3) d \<and> price_not_negative d)
          [(0, bag), (2, refund)]) = 1"
    by (simp add: matching_def date_between_def march_2022 price_not_negative_def
        bag_fields refund_fields)
  moreover have "bar_chart calm [(0, bag), (2, refund)] 3
     = send 200 (BarChart [(''0-100'', 0), (''101-200'', 1), (''201-300'', 0), (''301-400'', 0),
         (''401-500'', 0), (''501-600'', 0), (''601-700'', 0), (''701-800'', 0),
         (''801-900'', 0), (''901-above'', 0)])"
    by (simp add: bar_chart_fulfilled [OF ok] priceRanges_def range_count_def matching_def
        date_between_def price_between_def march_2022 bag_fields refund_fields)
  ultimately show ?thesis
    using bar_chart_total [OF ok whole] by simp
qed

text \<open>
  C1 as stated fails at three documents of March 2022 with the prices 150, 100.5 and -5:
  the three lie in the range of March and have a price, and the sum of the ten counts
  is 1.
\<close>

theorem bar_chart_total_counterexample:
  "bar_total (bar_chart calm [(0, bag), (1, lamp), (2, refund)] 3) = 1
   \<and> length (matching (\<lambda>d. date_between (startOfMonth 3) (endOfMonth 3) d \<and> price d \<noteq> None)
        [(0, bag), (1, lamp), (2, refund)]) = 3
   \<and> bar_total (bar_chart calm [(0, bag), (1, lamp), (2, refund)] 3)
     \<noteq> length (matching (\<lambda>d. date_between (startOfMonth 3) (endOfMonth 3) d \<and> price d \<noteq> None)
          [(0, bag), (1, lamp), (2, refund)])"
proof -
  have ok: "\<forall>i<10. bucket_ok calm i" by (simp add: calm_def)
  have "length (matching (\<lambda>d. date_between (startOfMonth 3) (endOfMonth 3) d \<and> price d \<noteq> None)
          [(0, bag), (1, lamp), (2, refund)]) = 3"
    by (simp add: matching_def date_between_def march_2022 bag_fields lamp_fields refund_fields
        del: not_None_eq)
  moreover have "bar_total (bar_chart calm [(0, bag), (1, lamp), (2, refund)] 3) = 1"
    by (simp add: bar_chart_fulfilled [OF ok] bar_total_def send_def priceRanges_def range_count_def
        matching_def date_between_def price_between_def march_2022
        bag_fields lamp_fields refund_fields)
  ultimately show ?thesis by simp
qed

subsection \<open>The end of the range of a month\<close>

text \<open>
  C10. For every month from 1 to 12, the upper bound of the range that every query
  handler filters with is 00:00 of the last day of the month. So a document whose
  \<^verbatim>\<open>dateOfSale\<close> is on that last day, at a time after 00:00, is outside the range:
  the responses of the transactions, statistics, bar chart and pie chart handlers are
  those of the store without the document.
\<close>

theorem last_day_after_midnight_excluded:
  assumes "1 \<le> q_month q" and "q_month q \<le> 12"
    and "dateOfSale d = Some t"
    and "Day t = Day (endOfMonth (q_month q))" and "0 < TimeWithinDay t"
  shows "TimeWithinDay (endOfMonth (q_month q)) = 0
         \<and> getMonth (endOfMonth (q_month q)) = q_month q - 1
         \<and> getDate (endOfMonth (q_month q)) = days_of_2022 (q_month q)
         \<and> getMonth t = q_month q - 1 \<and> getDate t = days_of_2022 (q_month q)
         \<and> transactions e (xs @ (i, d) # ys) q = transactions e (xs @ ys) q
         \<and> statistics e (xs @ (i, d) # ys) (q_month q) = statistics e (xs @ ys) (q_month q)
         \<and> bar_chart e (xs @ (i, d) # ys) (q_month q) = bar_chart e (xs @ ys) (q_month q)
         \<and> pie_chart e (xs @ (i, d) # ys) (q_month q) = pie_chart e (xs @ ys) (q_month q)"
proof -
  have "month_range_ok (q_month q)"
    using month_cases [OF assms(1,2)] months_of_2022 by (elim insertE emptyE) simp_all
  then have ends: "getMonth (endOfMonth (q_month q)) = q_month q - 1"
      "getDate (endOfMonth (q_month q)) = days_of_2022 (q_month q)"
    by (simp_all add: month_range_ok_def)
  then have same: "getMonth t = q_month q - 1" "getDate t = days_of_2022 (q_month q)"
    using assms(4) by (simp_all add: getMonth_def getDate_def)
  have "endOfMonth (q_month q) < t"
    using assms(4,5) by (rule after_midnight_later)
  then have out: "\<not> date_between (startOfMonth (q_month q)) (endOfMonth (q_month q)) d"
    using assms(3) by (simp add: date_between_def)
  show ?thesis
    using ends same out
    by (simp add: end_of_month_midnight(2) transactions_skip statistics_skip bar_chart_skip
        pie_chart_skip)
qed

text \<open>
  The theorem at a sale of 31 March 2022, 10:00, in a store that also holds a sale of
  5 March: the handlers answer for March as if the store held the sale of 5 March alone.
\<close>

theorem last_day_after_midnight_excluded_witness:
  "getMonth 1648720800000 = 2 \<and> getDate 1648720800000 = 31
   \<and> TimeWithinDay 1648720800000 = 36000000
   \<and> dateOfSale late_sale = Some 1648720800000
   \<and> transactions calm [(0, bag), (1, late_sale)] march
       = send 500 (Text ''Error fetching transactions'')
   \<and> statistics calm [(0, bag), (1, late_sale)] 3 = send 200
       (Statistics \<lparr>totalSaleAmount = 150, totalSoldItems = 1, totalNotSoldItems = 0\<rparr>)
   \<and> bar_chart calm [(0, bag), (1, late_sale)] 3 = bar_chart calm [(0, bag)] 3
   \<and> pie_chart calm [(0, bag), (1, late_sale)] 3 = send 200 (PieChart [(Some ''Clothing'', 1)])"
proof -
  have "Day 1648720800000 = Day (endOfMonth (q_month march))"
    and "0 < TimeWithinDay 1648720800000"
    and "TimeWithinDay 1648720800000 = 36000000"
    by (simp_all add: march_fields march_2022 Day_def TimeWithinDay_def msPerDay_def)
  then show ?thesis
    using last_day_after_midnight_excluded
      [of march late_sale 1648720800000 calm "[(0, bag)]" 1 "[]"]
    by (simp add: march_fields late_sale_fields bag_in_march days_of_2022_def)
qed

subsection \<open>The statistics\<close>



subsection \<open>The list of transactions\<close>

text \<open>
  C9 (what the code does). The filter of the transactions handler puts the regular
  expression on the path \<^verbatim>\<open>price\<close>, which the schema declares a Number, so the
  filter does not cast and the query is rejected on every request: whatever the page, the
  page size and the store, the handler answers with status 500 and its error message when
  the search is accepted as a regular expression, and sends no response when it is not.
  It returns no page of documents to any request.
\<close>

theorem transactions_never_a_page:
  "transactions e docs q =
     (if regexp_ok e (search_param q) then send 500 (Text ''Error fetching transactions'')
      else None)"
  by (simp add: transactions_def find_skip_limit_def casts_def transactionSchema_def
      search_param_def Let_def)

text \<open>
  The theorem at the request for March without other parameters, on a store that holds a
  sale of 5 March 2022 with the title \<^verbatim>\<open>Bag\<close>: the response is the error, not the
  page with the sale.
\<close>

theorem transactions_never_a_page_witness:
  "transactions calm [(0, bag)] march = send 500 (Text ''Error fetching transactions'')
   \<and> dateOfSale bag = Some 1646481600000
   \<and> startOfMonth 3 \<le> 1646481600000 \<and> 1646481600000 \<le> endOfMonth 3"
  using transactions_never_a_page [of calm "[(0, bag)]" march]
  by (simp add: search_param_def march_fields calm_fields empty_search bag_fields march_2022)

subsection \<open>The shape of the bar chart\<close>

text \<open>
  C4. For every month and every content of the store, a successful response of the bar
  chart handler is a sequence of exactly ten entries of a label and a count, the labels
  being \<^verbatim>\<open>0-100\<close> to \<^verbatim>\<open>901-above\<close> in the order of their declaration; the
  handler succeeds when its ten counts do, and only then; and its response does not
  depend on the order in which the ten counts complete.
\<close>

theorem bar_chart_shape:
  "((\<forall>i<10. bucket_ok e i) \<longrightarrow>
      (\<exists>counts. length counts = 10
         \<and> bar_chart e docs month = send 200 (BarChart (zip range_labels counts))))
   \<and> (\<forall>r. bar_chart e docs month = Some r \<longrightarrow> status r = 200 \<longrightarrow>
         (\<exists>counts. length counts = 10 \<and> body r = BarChart (zip range_labels counts)))
   \<and> bar_chart (e\<lparr>bucket_time := time\<rparr>) docs month = bar_chart e docs month"
proof -
  let ?counts = "map (\<lambda>r. snd (range_count docs month r)) priceRanges"
  have len: "length ?counts = 10"
    by (simp add: length_priceRanges)
  have ok: "bar_chart e docs month = send 200 (BarChart (zip range_labels ?counts))"
    if "\<forall>i<10. bucket_ok e i"
    using that by (simp add: bar_chart_fulfilled range_counts_labels [symmetric])
  have "\<exists>counts. length counts = 10 \<and> body r = BarChart (zip range_labels counts)"
    if "bar_chart e docs month = Some r" and "status r = 200" for r
  proof -
    have "\<forall>i<10. bucket_ok e i" using that by (rule bar_chart_200)
    then have "Some r = send 200 (BarChart (zip range_labels ?counts))"
      using ok that(1) by simp
    then have "body r = BarChart (zip range_labels ?counts)"
      by (simp add: send_def)
    with len show ?thesis by blast
  qed
  moreover have "bar_chart (e\<lparr>bucket_time := time\<rparr>) docs month = bar_chart e docs month"
    by (simp add: bar_chart_def Promise_all_eq bucket_count_time)
  ultimately show ?thesis
    using ok len by blast
qed

text \<open>
  The theorem at a store with one sale of 150 in March 2022, the ten counts completing
  in the reverse of their order: the second entry counts 1, the others 0.
\<close>

theorem bar_chart_shape_witness:
  "bar_chart (calm\<lparr>bucket_time := (\<lambda>i. 10 - i)\<rparr>) [(0, bag)] 3
     = send 200 (BarChart (zip range_labels [0, 1, 0, 0, 0, 0, 0, 0, 0, 0]))
   \<and> length [0, 1, 0, 0, 0, 0, 0, 0, 0, 0 :: nat] = 10"
  using bar_chart_shape [of calm "[(0, bag)]" 3 "\<lambda>i. 10 - i"]
  by (simp add: bag_bars_in_march range_labels_def)

subsection \<open>The combined data\<close>

text \<open>
  C3 (what the code does). The first of the four requests of the combined handler goes
  to the transactions handler, which answers no request with status 200. So the combined
  handler never answers with its four fields: a response it sends is the error of status
  500, and it sends that error whenever the search is accepted as a regular expression,
  also where the statistics, bar chart and pie chart handlers, called alone, answer with
  status 200.
\<close>

theorem combined_data_never_fields:
  "(\<forall>r. combined_data e docs q = Some r \<longrightarrow>
        r = \<lparr>status = 500, body = Text ''Error fetching combined data''\<rparr>)
   \<and> (regexp_ok e (search_param q) \<longrightarrow>
        combined_data e docs q = send 500 (Text ''Error fetching combined data''))"
proof -
  have first: "\<forall>t. axios_get (http_ok e 0) (transactions e docs q) \<noteq> Fulfilled t"
    by (simp add: transactions_cases axios_get_def send_def)
  have "r = \<lparr>status = 500, body = Text ''Error fetching combined data''\<rparr>"
    if "combined_data e docs q = Some r" for r
    using that first unfolding combined_data_requests requests_def
    by (rule four_promises_first)
  moreover have "combined_data e docs q = send 500 (Text ''Error fetching combined data'')"
    if "regexp_ok e (search_param q)"
  proof -
    have "axios_get (http_ok e 0) (transactions e docs q) = Rejected"
      using that by (simp add: transactions_cases axios_get_def send_def)
    then show ?thesis
      unfolding combined_data_requests requests_def four_promises_500 by simp
  qed
  ultimately show ?thesis by blast
qed

text \<open>
  The theorem at a store with one sale of March 2022 and the request for March: the
  combined response is the error, while the statistics, the bar chart and the pie chart
  handlers answer the same request with status 200.
\<close>

theorem combined_data_never_fields_witness:
  "combined_data calm [(0, bag)] march = send 500 (Text ''Error fetching combined data'')
   \<and> transactions calm [(0, bag)] march = send 500 (Text ''Error fetching transactions'')
   \<and> statistics calm [(0, bag)] (q_month march) = send 200
       (Statistics \<lparr>totalSaleAmount = 150, totalSoldItems = 1, totalNotSoldItems = 0\<rparr>)
   \<and> bar_chart calm [(0, bag)] (q_month march)
       = send 200 (BarChart [(''0-100'', 0), (''101-200'', 1), (''201-300'', 0), (''301-400'', 0),
           (''401-500'', 0), (''501-600'', 0), (''601-700'', 0), (''701-800'', 0),
           (''801-900'', 0), (''901-above'', 0)])
   \<and> pie_chart calm [(0, bag)] (q_month march) = send 200 (PieChart [(Some ''Clothing'', 1)])"
  using combined_data_never_fields [of calm "[(0, bag)]" march]
  by (simp add: search_param_def bag_in_march bag_bars_in_march march_fields calm_fields
      empty_search)

subsection \<open>A failure that is not answered\<close>

text \<open>
  C7 (what the code does). The transactions handler builds its regular expression before
  its \<^verbatim>\<open>try\<close> block. When the search is no regular expression the handler throws
  and sends no response; the request that the combined handler sent to it never settles,
  and when the other three requests succeed the combined handler sends no response
  either: the failure of one of its four operations is answered by no error response.
\<close>

theorem combined_data_silent:
  assumes "\<not> regexp_ok e (search_param q)"
    and "http_ok e 0" and "http_ok e 1" and "http_ok e 2" and "http_ok e 3"
    and "total_ok e" and "sold_ok e" and "unsold_ok e"
    and "\<forall>i<10. bucket_ok e i" and "group_ok e"
  shows "transactions e docs q = None \<and> combined_data e docs q = None"
proof -
  have t: "transactions e docs q = None"
    using assms(1) by (simp add: transactions_cases)
  obtain s where s: "statistics e docs (q_month q) = send 200 s"
    using assms(6-8)
    by (simp add: statistics_def aggregate_total_def countDocuments_def Let_def)
  obtain b where b: "bar_chart e docs (q_month q) = send 200 b"
    using assms(9) by (simp add: bar_chart_fulfilled)
  obtain p where p: "pie_chart e docs (q_month q) = send 200 p"
    using assms(10) by (simp add: pie_chart_def aggregate_count_def)
  have "requests e docs q = [Pending, Fulfilled s, Fulfilled b, Fulfilled p]"
    using assms(2-5) by (simp add: requests_def t s b p axios_get_def send_def)
  then have "combined_data e docs q = None"
    by (simp only: combined_data_requests four_promises_pending)
  with t show ?thesis by simp
qed

text \<open>
  The theorem at the request for March whose search is \<^verbatim>\<open>*\<close>, everything else
  succeeding: neither the transactions handler nor the combined handler sends a response.
\<close>

theorem combined_data_silent_witness:
  "\<not> regexp_ok calm (search_param star)
   \<and> transactions calm [(0, bag)] star = None
   \<and> combined_data calm [(0, bag)] star = None"
proof -
  have bad: "\<not> regexp_ok calm (search_param star)"
    by (simp add: star_def search_param_def calm_fields literal_ok_def)
  have oks: "http_ok calm 0" "http_ok calm 1" "http_ok calm 2" "http_ok calm 3"
      "total_ok calm" "sold_ok calm" "unsold_ok calm" "\<forall>i<10. bucket_ok calm i" "group_ok calm"
    by (simp_all add: calm_fields)
  show ?thesis
    using bad combined_data_silent [OF bad oks, of "[(0, bag)]"] by simp
qed

subsection \<open>Failures that are answered\<close>

text \<open>
  When one of the ten counts of the bar chart fails, the bar chart handler answers with
  status 500 and its error message, and no count. When one of the four requests of the
  combined handler is rejected, by its transport or by a response of status 500, the
  combined handler answers with status 500 and its error message, and no field.
\<close>

theorem all_or_nothing:
  "((\<exists>i<10. \<not> bucket_ok e i)
      \<longrightarrow> bar_chart e docs month = send 500 (Text ''Error fetching bar chart data''))
   \<and> ((\<not> http_ok e 0 \<or> \<not> http_ok e 1 \<or> \<not> http_ok e 2 \<or> \<not> http_ok e 3
        \<or> (\<exists>c. transactions e docs q = send 500 c)
        \<or> (\<exists>c. statistics e docs (q_month q) = send 500 c)
        \<or> (\<exists>c. bar_chart e docs (q_month q) = send 500 c)
        \<or> (\<exists>c. pie_chart e docs (q_month q) = send 500 c))
      \<longrightarrow> combined_data e docs q = send 500 (Text ''Error fetching combined data''))"
proof -
  have "combined_data e docs q = send 500 (Text ''Error fetching combined data'')
      \<longleftrightarrow> \<not> http_ok e 0 \<or> \<not> http_ok e 1 \<or> \<not> http_ok e 2 \<or> \<not> http_ok e 3
        \<or> (\<exists>c. transactions e docs q = send 500 c)
        \<or> (\<exists>c. statistics e docs (q_month q) = send 500 c)
        \<or> (\<exists>c. bar_chart e docs (q_month q) = send 500 c)
        \<or> (\<exists>c. pie_chart e docs (q_month q) = send 500 c)"
    unfolding combined_data_requests requests_def four_promises_500
    by (auto simp: axios_get_plain transactions_plain statistics_plain bar_chart_plain
        pie_chart_plain)
  then show ?thesis
    using bar_chart_rejected [of _ e docs month] by blast
qed

text \<open>
  The theorem where the count of the range 701 to 800 fails and everything else succeeds:
  the bar chart is an error, and so is the combined response.
\<close>

theorem all_or_nothing_witness:
  "bar_chart stormy [(0, bag)] 3 = send 500 (Text ''Error fetching bar chart data'')
   \<and> combined_data stormy [(0, bag)] march = send 500 (Text ''Error fetching combined data'')"
proof -
  have fails: "\<exists>i<10. \<not> bucket_ok stormy i"
    by (rule exI [of _ 7]) (simp add: stormy_def)
  then have bars: "bar_chart stormy [(0, bag)] 3 = send 500 (Text ''Error fetching bar chart data'')"
    using all_or_nothing [of stormy "[(0, bag)]" 3] by blast
  then have "\<exists>c. bar_chart stormy [(0, bag)] (q_month march) = send 500 c"
    by (auto simp: march_fields)
  then have "combined_data stormy [(0, bag)] march = send 500 (Text ''Error fetching combined data'')"
    using all_or_nothing [of stormy "[(0, bag)]" 3 march] by blast
  with bars show ?thesis by simp
qed

subsection \<open>The initialization\<close>

text \<open>
  C6. For every collection to start from, a run of the initialization whose fetch, delete
  and insert succeed leaves in the collection the documents of the array that the source
  returned, in its order, whatever the identifiers the store gave them; and a second such
  run, the source returning the same array, answers with status 200 again and leaves the
  same documents again.
\<close>

theorem init_idempotent:
  assumes "fetched ie = Some data" and "deleted ie = Deleted" and "inserted ie = Inserted"
    and "fetched ie' = Some data" and "deleted ie' = Deleted" and "inserted ie' = Inserted"
  shows "fst (init ie c) = \<lparr>status = 200, body = Text ''Database initialized''\<rparr>
         \<and> map snd (documents (snd (init ie c))) = data
         \<and> fst (init ie' (snd (init ie c))) = \<lparr>status = 200, body = Text ''Database initialized''\<rparr>
         \<and> map snd (documents (snd (init ie' (snd (init ie c))))) = data"
  by (simp add: init_succeeds [OF assms(1-3)] init_succeeds [OF assms(4-6)] contents_write_docs)

text \<open>
  The theorem at a collection of one document and a source of two: after one run and
  after two runs the collection holds the two documents of the source, under new
  identifiers each time.
\<close>

theorem init_idempotent_witness:
  "documents (snd (init fresh_run old_collection)) = [(1, bag), (2, lamp)]
   \<and> documents (snd (init fresh_run (snd (init fresh_run old_collection)))) = [(3, bag), (4, lamp)]
   \<and> map snd (documents (snd (init fresh_run old_collection))) = [bag, lamp]
   \<and> map snd (documents (snd (init fresh_run (snd (init fresh_run old_collection))))) = [bag, lamp]
   \<and> fst (init fresh_run (snd (init fresh_run old_collection)))
       = \<lparr>status = 200, body = Text ''Database initialized''\<rparr>"
proof -
  have run: "fetched fresh_run = Some [bag, lamp]" "deleted fresh_run = Deleted"
      "inserted fresh_run = Inserted"
    by (simp_all add: fresh_run_def)
  have "documents (snd (init fresh_run old_collection)) = [(1, bag), (2, lamp)]"
    and "documents (snd (init fresh_run (snd (init fresh_run old_collection)))) = [(3, bag), (4, lamp)]"
    by (simp_all add: init_succeeds [OF run] write_docs_def old_collection_def upt_rec)
  then show ?thesis
    using init_idempotent [OF run run, of old_collection] by simp
qed

text \<open>
  C8 (as amended). The delete and the insert of the initialization are two operations.
  In every run in which the fetch fails, the handler answers with status 500 and the
  collection is unchanged. In every run in which the insert fails after the delete has
  succeeded, the handler answers with status 500 and the collection holds none of the
  documents it held before: it holds the documents of the fetched array that the store
  had written before the insert failed, and is empty when the insert failed before it
  wrote any.
\<close>

theorem init_failures:
  "(fetched ie = None \<longrightarrow>
      init ie c = (\<lparr>status = 500, body = Text ''Error initializing database''\<rparr>, c))
   \<and> (fetched ie = Some data \<and> deleted ie = Deleted \<and> inserted ie = InsertFailed k \<longrightarrow>
        fst (init ie c) = \<lparr>status = 500, body = Text ''Error initializing database''\<rparr>
        \<and> map snd (documents (snd (init ie c))) = take k data
        \<and> (k = 0 \<longrightarrow> documents (snd (init ie c)) = []))"
  by (auto simp: init_def deleteMany_def insertMany_def contents_write_docs write_docs_def)

text \<open>
  The theorem at a collection of one document and a source of two: a failed fetch leaves
  the document in place, an insert that fails at once leaves the collection empty, and an
  insert that fails after one document leaves that document.
\<close>

theorem init_failures_witness:
  "init no_source old_collection
     = (\<lparr>status = 500, body = Text ''Error initializing database''\<rparr>, old_collection)
   \<and> fst (init refused_insert old_collection)
     = \<lparr>status = 500, body = Text ''Error initializing database''\<rparr>
   \<and> documents (snd (init refused_insert old_collection)) = []
   \<and> map snd (documents (snd (init broken_insert old_collection))) = [bag]"
  using init_failures [where ie = no_source and c = old_collection]
    init_failures [where ie = refused_insert and c = old_collection and data = "[bag, lamp]" and k = 0]
    init_failures [where ie = broken_insert and c = old_collection and data = "[bag, lamp]" and k = 1]
  by (simp add: no_source_def refused_insert_def broken_insert_def)

text \<open>
  C8 as stated fails where the insert fails after it has written the first of the two
  fetched documents: the handler answers with status 500 and the collection is not empty.
\<close>

theorem init_failures_counterexample:
  "fetched broken_insert = Some [bag, lamp] \<and> deleted broken_insert = Deleted
   \<and> inserted broken_insert = InsertFailed 1
   \<and> fst (init broken_insert old_collection)
       = \<lparr>status = 500, body = Text ''Error initializing database''\<rparr>
   \<and> documents (snd (init broken_insert old_collection)) = [(1, bag)]
   \<and> documents (snd (init broken_insert old_collection)) \<noteq> []"
  by (simp add: init_def deleteMany_def insertMany_def write_docs_def broken_insert_def
      old_collection_def upt_rec)

end
